theory Spec2Isabelle
  imports Main "HOL-Library.Word"
begin

unbundle bit_operations_syntax

section \<open>Errors\<close>

text \<open>
  The Go code reports every failure as a formatted message. Each message is mapped to the
  error kind the specification names for it; two failures have no kind in the
  specification and get one of their own (\<open>HomeDirError\<close> for "failed to get home
  directory", \<open>OwnershipIdError\<close> for "failed to get ollama user/group").
\<close>

datatype error =
    InvalidReference
  | ManifestReadError
  | ManifestParseError
  | ArchiveWriteError
  | RefusedTerminalOutput
  | UnsupportedFormat
  | ArchiveReadError
  | ExtractWriteError
  | HomeDirError
  | OwnershipIdError

section \<open>Model names (cmd/save.go)\<close>

record ModelName =
  Host :: string
  Namespace :: string
  Model :: string
  Tag :: string

subsection \<open>The regular expressions of parseModelName\<close>

text \<open>
  All five patterns have the form \<open>^ item ... item $\<close>, where an item is a literal
  character or a named group \<open>(?P<name>C+)\<close> over a character class \<open>C\<close>, which is
  \<open>[^c]\<close> or \<open>.\<close>. Go compiles them with the Perl flags: a negated class matches a
  newline, \<open>.\<close> does not, and \<open>^\<close>, \<open>$\<close> match only at the two ends of the text.
  Strings are byte lists; the delimiters and the newline are ASCII, so matching bytes
  is matching runes here.
\<close>

datatype cls = NotChar char | AnyButNL

datatype item = Lit char | Grp string cls

fun accepts :: "cls \<Rightarrow> char \<Rightarrow> bool" where
  "accepts (NotChar c) x = (x \<noteq> c)"
| "accepts AnyButNL x = (x \<noteq> CHR 0x0A)"

primrec first_some :: "('a \<Rightarrow> 'b option) \<Rightarrow> 'a list \<Rightarrow> 'b option" where
  "first_some f [] = None"
| "first_some f (x # xs) = (case f x of Some y \<Rightarrow> Some y | None \<Rightarrow> first_some f xs)"

text \<open>
  \<open>match_items its s\<close> matches the whole of \<open>s\<close> against the items and returns the
  text of each group, in order. A group is greedy: it first takes the longest run of
  accepted characters and gives characters back one at a time while the rest of the
  pattern fails (leftmost-first matching).
\<close>

primrec match_items :: "item list \<Rightarrow> string \<Rightarrow> string list option" where
  "match_items [] s = (if s = [] then Some [] else None)"
| "match_items (it # r) s =
     (case it of
        Lit c \<Rightarrow>
          (case s of [] \<Rightarrow> None
           | x # xs \<Rightarrow> if x = c then match_items r xs else None)
      | Grp nm cl \<Rightarrow>
          first_some
            (\<lambda>n. map_option (Cons (take n s)) (match_items r (drop n s)))
            (rev [1 ..< Suc (length (takeWhile (accepts cl) s))]))"

definition FindStringSubmatch :: "item list \<Rightarrow> string \<Rightarrow> string list option" where
  "FindStringSubmatch re s = map_option (Cons s) (match_items re s)"

fun group_names :: "item list \<Rightarrow> string list" where
  "group_names [] = []"
| "group_names (Lit c # r) = group_names r"
| "group_names (Grp nm cl # r) = nm # group_names r"

definition SubexpNames :: "item list \<Rightarrow> string list" where
  "SubexpNames re = [] # group_names re"

definition pattern1 :: "item list" where
  "pattern1 = [Grp ''host'' (NotChar CHR ''/''), Lit CHR ''/'',
               Grp ''namespace'' (NotChar CHR ''/''), Lit CHR ''/'',
               Grp ''model'' (NotChar CHR '':''), Lit CHR '':'',
               Grp ''tag'' AnyButNL]"

definition pattern2 :: "item list" where
  "pattern2 = [Grp ''namespace'' (NotChar CHR ''/''), Lit CHR ''/'',
               Grp ''model'' (NotChar CHR '':''), Lit CHR '':'',
               Grp ''tag'' AnyButNL]"

definition pattern3 :: "item list" where
  "pattern3 = [Grp ''namespace'' (NotChar CHR ''/''), Lit CHR ''/'',
               Grp ''model'' (NotChar CHR '':'')]"

definition pattern4 :: "item list" where
  "pattern4 = [Grp ''model'' (NotChar CHR '':''), Lit CHR '':'', Grp ''tag'' AnyButNL]"

definition pattern5 :: "item list" where
  "pattern5 = [Grp ''model'' (NotChar CHR '':'')]"

definition patterns :: "item list list" where
  "patterns = [pattern1, pattern2, pattern3, pattern4, pattern5]"

subsection \<open>parseModelName\<close>

definition default_name :: ModelName where
  "default_name = \<lparr>Host = ''registry.ollama.ai'', Namespace = ''library'',
                    Model = [], Tag = ''latest''\<rparr>"

definition set_group :: "string \<times> string \<Rightarrow> ModelName \<Rightarrow> ModelName" where
  "set_group nv result =
     (if fst nv = ''host'' then result\<lparr>Host := snd nv\<rparr>
      else if fst nv = ''namespace'' then result\<lparr>Namespace := snd nv\<rparr>
      else if fst nv = ''model'' then result\<lparr>Model := snd nv\<rparr>
      else if fst nv = ''tag'' then result\<lparr>Tag := snd nv\<rparr>
      else result)"

fun try_patterns :: "item list list \<Rightarrow> string \<Rightarrow> error + ModelName" where
  "try_patterns [] name = Inl InvalidReference"
| "try_patterns (re # res) name =
     (case FindStringSubmatch re name of
        Some matches \<Rightarrow> Inr (fold set_group (zip (SubexpNames re) matches) default_name)
      | None \<Rightarrow> try_patterns res name)"

definition parseModelName :: "string \<Rightarrow> error + ModelName" where
  "parseModelName name = try_patterns patterns name"

section \<open>Paths (the functions of path/filepath the commands call, on Unix)\<close>

text \<open>
  \<open>filepath.Join\<close>, \<open>filepath.Clean\<close> and \<open>filepath.Dir\<close> belong to the Go library.
  They are modelled from their documented behaviour: \<open>Clean\<close> drops empty and \<open>.\<close>
  elements, cancels an inner \<open>..\<close> against the element before it, drops a \<open>..\<close> that
  would climb above the root of a rooted path, and returns \<open>.\<close> for an empty result;
  \<open>Join\<close> ignores leading empty elements, joins the rest with \<open>/\<close> and cleans the
  result; \<open>Dir\<close> cleans everything up to the last separator.
\<close>

primrec split_path :: "string \<Rightarrow> string list" where
  "split_path [] = [[]]"
| "split_path (c # cs) =
     (if c = CHR ''/'' then [] # split_path cs
      else (case split_path cs of [] \<Rightarrow> [[c]] | e # es \<Rightarrow> (c # e) # es))"

fun slash_join :: "string list \<Rightarrow> string" where
  "slash_join [] = []"
| "slash_join [e] = e"
| "slash_join (e # es) = e @ CHR ''/'' # slash_join es"

definition is_rooted :: "string \<Rightarrow> bool" where
  "is_rooted p = (case p of [] \<Rightarrow> False | c # cs \<Rightarrow> c = CHR ''/'')"

definition clean_step :: "bool \<Rightarrow> string list \<Rightarrow> string \<Rightarrow> string list" where
  "clean_step rooted out e =
     (if e = [] \<or> e = ''.'' then out
      else if e = ''..'' then
        (if out \<noteq> [] \<and> last out \<noteq> ''..'' then butlast out
         else if rooted then out
         else out @ [''..''])
      else out @ [e])"

definition path_elems :: "string \<Rightarrow> string list" where
  "path_elems p = foldl (clean_step (is_rooted p)) [] (split_path p)"

definition render :: "bool \<Rightarrow> string list \<Rightarrow> string" where
  "render rooted es =
     (let out = (if rooted then ''/'' else []) @ slash_join es
      in if out = [] then ''.'' else out)"

definition Clean :: "string \<Rightarrow> string" where
  "Clean p = render (is_rooted p) (path_elems p)"

definition Join :: "string list \<Rightarrow> string" where
  "Join elem =
     (case dropWhile (\<lambda>e. e = []) elem of
        [] \<Rightarrow> []
      | e # es \<Rightarrow> Clean (slash_join (e # es)))"

definition Dir :: "string \<Rightarrow> string" where
  "Dir p = Clean (rev (dropWhile (\<lambda>c. c \<noteq> CHR ''/'') (rev p)))"

definition HasSuffix :: "string \<Rightarrow> string \<Rightarrow> bool" where
  "HasSuffix s suf = (length suf \<le> length s \<and> drop (length s - length suf) s = suf)"

definition HasPrefix :: "string \<Rightarrow> string \<Rightarrow> bool" where
  "HasPrefix s pre = (length pre \<le> length s \<and> take (length pre) s = pre)"

definition TrimPrefix :: "string \<Rightarrow> string \<Rightarrow> string" where
  "TrimPrefix s pre = (if HasPrefix s pre then drop (length pre) s else s)"

section \<open>The world the commands run in\<close>

text \<open>
  A file is named by a location: whether its path is rooted, and the elements of the
  cleaned path. The operating system is taken to resolve a path lexically (no symbolic
  links); the empty path names nothing. A world lists its directories, the root and the
  working directory included. \<open>faults\<close> is the environment's choice of the operations
  that fail for a reason outside the model (permissions, a full disk), \<open>stdout_ok\<close>
  whether standard output accepts writes; \<open>trace\<close> records every file operation in the
  order it is made.
\<close>

type_synonym loc = "bool \<times> string list"

datatype node = RegFile "32 word" string | Directory "32 word"

datatype typeflag = TypeReg | TypeDir | TypeOther

record tar_header =
  Name :: string
  Mode :: "64 word"
  Size :: int
  Typeflag :: typeflag

datatype tar_event = Header tar_header | Body string | Trailer

datatype io_op =
    OpStat string
  | OpReadFile string
  | OpOpen string
  | OpRead string
  | OpMkdirAll string
  | OpOpenFile string
  | OpWrite string
  | OpChown string int int

record world =
  fs :: "loc \<rightharpoonup> node"
  owner :: "loc \<rightharpoonup> int \<times> int"
  umask :: "32 word"
  environ :: "string \<rightharpoonup> string"
  users :: "string \<rightharpoonup> string"
  groups :: "string \<rightharpoonup> string"
  stdout_tty :: bool
  stdout_ok :: bool
  stdout :: "tar_event list"
  faults :: "io_op \<Rightarrow> bool"
  trace :: "io_op list"

definition resolve :: "string \<Rightarrow> loc" where
  "resolve p = (is_rooted p, path_elems p)"

definition lookup :: "world \<Rightarrow> string \<Rightarrow> node option" where
  "lookup w p = (if p = [] then None else fs w (resolve p))"

definition log_op :: "io_op \<Rightarrow> world \<Rightarrow> world" where
  "log_op op w = w\<lparr>trace := trace w @ [op]\<rparr>"

subsection \<open>Results: the error kind a failure is reported as\<close>

definition io_return :: "'a \<Rightarrow> world \<Rightarrow> (error + 'a) \<times> world" where
  "io_return x w = (Inr x, w)"

definition io_fail :: "error \<Rightarrow> world \<Rightarrow> (error + 'a) \<times> world" where
  "io_fail e w = (Inl e, w)"

definition io_bind ::
  "(world \<Rightarrow> (error + 'a) \<times> world) \<Rightarrow> ('a \<Rightarrow> world \<Rightarrow> (error + 'b) \<times> world) \<Rightarrow>
   world \<Rightarrow> (error + 'b) \<times> world" where
  "io_bind m f w = (case m w of (Inl e, w') \<Rightarrow> (Inl e, w') | (Inr x, w') \<Rightarrow> f x w')"

text \<open>\<open>or_fail e op\<close> is \<open>x, err := op; if err != nil { return fmt.Errorf(...) }\<close>.\<close>

definition or_fail ::
  "error \<Rightarrow> (world \<Rightarrow> 'a option \<times> world) \<Rightarrow> world \<Rightarrow> (error + 'a) \<times> world" where
  "or_fail e op w = (case op w of (None, w') \<Rightarrow> (Inl e, w') | (Some x, w') \<Rightarrow> (Inr x, w'))"

subsection \<open>Operating system calls\<close>

definition os_Getenv :: "world \<Rightarrow> string \<Rightarrow> string" where
  "os_Getenv w k = (case environ w k of None \<Rightarrow> [] | Some v \<Rightarrow> v)"

definition os_UserHomeDir :: "world \<Rightarrow> string option" where
  "os_UserHomeDir w = (let v = os_Getenv w ''HOME'' in if v \<noteq> [] then Some v else None)"

definition os_Stat :: "string \<Rightarrow> world \<Rightarrow> node option \<times> world" where
  "os_Stat p w = (if faults w (OpStat p) then None else lookup w p, log_op (OpStat p) w)"

definition os_ReadFile :: "string \<Rightarrow> world \<Rightarrow> string option \<times> world" where
  "os_ReadFile p w =
     (if faults w (OpReadFile p) then None
      else (case lookup w p of Some (RegFile m c) \<Rightarrow> Some c | _ \<Rightarrow> None),
      log_op (OpReadFile p) w)"

text \<open>An open file is the path it was opened by and the node found there.\<close>

definition os_Open :: "string \<Rightarrow> world \<Rightarrow> (string \<times> node) option \<times> world" where
  "os_Open p w =
     (if faults w (OpOpen p) then None else map_option (Pair p) (lookup w p),
      log_op (OpOpen p) w)"

definition file_Read :: "string \<times> node \<Rightarrow> world \<Rightarrow> string option \<times> world" where
  "file_Read file w =
     (if faults w (OpRead (fst file)) then None
      else (case snd file of RegFile m c \<Rightarrow> Some c | Directory m \<Rightarrow> None),
      log_op (OpRead (fst file)) w)"

definition dir_mode :: "world \<Rightarrow> 32 word" where
  "dir_mode w = 0x1FF AND NOT (umask w)"

fun mkdir_all :: "(loc \<rightharpoonup> node) \<Rightarrow> 32 word \<Rightarrow> bool \<Rightarrow> string list \<Rightarrow> (loc \<rightharpoonup> node) option" where
  "mkdir_all f dm r [] =
     (case f (r, []) of
        Some (Directory m) \<Rightarrow> Some f
      | Some (RegFile m c) \<Rightarrow> None
      | None \<Rightarrow> Some (f((r, []) \<mapsto> Directory dm)))"
| "mkdir_all f dm r (e # es) =
     (case f (r, rev (e # es)) of
        Some (Directory m) \<Rightarrow> Some f
      | Some (RegFile m c) \<Rightarrow> None
      | None \<Rightarrow>
          (case mkdir_all f dm r es of
             None \<Rightarrow> None
           | Some f' \<Rightarrow> Some (f'((r, rev (e # es)) \<mapsto> Directory dm))))"

definition os_MkdirAll :: "string \<Rightarrow> world \<Rightarrow> unit option \<times> world" where
  "os_MkdirAll p w =
     (if faults w (OpMkdirAll p) \<or> p = [] then (None, log_op (OpMkdirAll p) w)
      else (case mkdir_all (fs w) (dir_mode w) (is_rooted p) (rev (path_elems p)) of
              None \<Rightarrow> (None, log_op (OpMkdirAll p) w)
            | Some f' \<Rightarrow> (Some (), log_op (OpMkdirAll p) (w\<lparr>fs := f'\<rparr>))))"

definition create_mode :: "world \<Rightarrow> 32 word \<Rightarrow> 32 word" where
  "create_mode w perm =
     ((perm AND 0x1FF) AND NOT (umask w)) OR (perm AND (2 ^ 23 OR 2 ^ 22 OR 2 ^ 20))"

text \<open>
  \<open>os.OpenFile(p, O_CREATE|O_RDWR|O_TRUNC, perm)\<close>: an existing file is emptied and
  keeps its mode, a new one is created in an existing directory.
\<close>

definition os_OpenFile :: "string \<Rightarrow> 32 word \<Rightarrow> world \<Rightarrow> string option \<times> world" where
  "os_OpenFile p perm w =
     (if faults w (OpOpenFile p) \<or> p = [] then (None, log_op (OpOpenFile p) w)
      else (case fs w (resolve p) of
              Some (Directory m) \<Rightarrow> (None, log_op (OpOpenFile p) w)
            | Some (RegFile m c) \<Rightarrow>
                (Some p, log_op (OpOpenFile p) (w\<lparr>fs := (fs w)(resolve p \<mapsto> RegFile m [])\<rparr>))
            | None \<Rightarrow>
                (if path_elems p \<noteq> [] \<and>
                    (case fs w (is_rooted p, butlast (path_elems p)) of
                       Some (Directory m) \<Rightarrow> True | _ \<Rightarrow> False)
                 then (Some p, log_op (OpOpenFile p)
                         (w\<lparr>fs := (fs w)(resolve p \<mapsto> RegFile (create_mode w perm) [])\<rparr>))
                 else (None, log_op (OpOpenFile p) w))))"

text \<open>Writing to the file just opened; a fault leaves what was written before it.\<close>

definition file_Write :: "string \<Rightarrow> string \<Rightarrow> world \<Rightarrow> unit option \<times> world" where
  "file_Write p bytes w =
     (case fs w (resolve p) of
        Some (RegFile m c) \<Rightarrow>
          (if faults w (OpWrite p) then (None, log_op (OpWrite p) w)
           else (Some (), log_op (OpWrite p) (w\<lparr>fs := (fs w)(resolve p \<mapsto> RegFile m (c @ bytes))\<rparr>)))
      | _ \<Rightarrow> (None, log_op (OpWrite p) w))"

definition os_Chown :: "string \<Rightarrow> int \<Rightarrow> int \<Rightarrow> world \<Rightarrow> unit option \<times> world" where
  "os_Chown p uid gid w =
     (if faults w (OpChown p uid gid) \<or> lookup w p = None
      then (None, log_op (OpChown p uid gid) w)
      else (Some (), log_op (OpChown p uid gid) (w\<lparr>owner := (owner w)(resolve p \<mapsto> (uid, gid))\<rparr>)))"

subsection \<open>The tar writer on standard output\<close>

text \<open>
  Standard output holds what the tar writer was handed: headers, bodies and the trailer
  that \<open>Close\<close> writes. The byte encoding of the archive is the library's. A header of
  non-zero size with no body after it is an entry still waiting for its bytes:
  \<open>WriteHeader\<close> and \<open>Close\<close> refuse to go on from there.
\<close>

definition pending :: "tar_event list \<Rightarrow> bool" where
  "pending evs = (case rev evs of Header h # r \<Rightarrow> Size h \<noteq> 0 | _ \<Rightarrow> False)"

definition tw_WriteHeader :: "tar_header \<Rightarrow> world \<Rightarrow> unit option \<times> world" where
  "tw_WriteHeader h w =
     (if stdout_ok w \<and> \<not> pending (stdout w)
      then (Some (), w\<lparr>stdout := stdout w @ [Header h]\<rparr>)
      else (None, w))"

definition tw_Write :: "string \<Rightarrow> world \<Rightarrow> unit option \<times> world" where
  "tw_Write bytes w =
     (if stdout_ok w then (Some (), w\<lparr>stdout := stdout w @ [Body bytes]\<rparr>) else (None, w))"

definition tw_Close :: "world \<Rightarrow> world" where
  "tw_Close w =
     (if stdout_ok w \<and> \<not> pending (stdout w) then w\<lparr>stdout := stdout w @ [Trailer]\<rparr> else w)"

text \<open>\<open>io.Copy(tw, file)\<close>: read the open file, write its bytes to the archive.\<close>

definition io_Copy_tar :: "string \<times> node \<Rightarrow> world \<Rightarrow> unit option \<times> world" where
  "io_Copy_tar file w =
     (case file_Read file w of
        (None, w') \<Rightarrow> (None, w')
      | (Some bytes, w') \<Rightarrow> tw_Write bytes w')"

text \<open>
  \<open>tar.FileInfoHeader\<close>: the permission bits, and the setuid, setgid and sticky bits in
  their tar encoding; the size of a regular file, zero for a directory. The caller
  overwrites \<open>Name\<close>.
\<close>

definition header_mode :: "32 word \<Rightarrow> 64 word" where
  "header_mode fm =
     ucast (fm AND 0x1FF)
       OR (if bit fm 23 then 0x800 else 0)
       OR (if bit fm 22 then 0x400 else 0)
       OR (if bit fm 20 then 0x200 else 0)"

definition FileInfoHeader :: "node \<Rightarrow> tar_header option" where
  "FileInfoHeader info =
     (case info of
        RegFile m c \<Rightarrow>
          Some \<lparr>Name = [], Mode = header_mode m, Size = int (length c), Typeflag = TypeReg\<rparr>
      | Directory m \<Rightarrow>
          Some \<lparr>Name = [], Mode = header_mode m, Size = 0, Typeflag = TypeDir\<rparr>)"

section \<open>Manifests and file paths (cmd/save.go)\<close>

text \<open>
  A decoded manifest: the digest of \<open>config\<close> and the digests of \<open>layers\<close>, in order.
  \<open>json.Unmarshal\<close> is the library's; the functions below take it as the parameter
  \<open>unmarshal\<close>, \<open>None\<close> when it returns an error.
\<close>

record Manifest =
  Config_Digest :: string
  Layers_Digest :: "string list"

definition blob_name :: "string \<Rightarrow> string" where
  "blob_name digest = ''sha256-'' @ TrimPrefix digest ''sha256:''"

primrec layer_shas :: "string list \<Rightarrow> string list \<Rightarrow> string list" where
  "layer_shas shas [] = shas"
| "layer_shas shas (digest # layers) =
     layer_shas (if digest \<noteq> [] then shas @ [blob_name digest] else shas) layers"

definition parseManifest ::
  "(string \<Rightarrow> Manifest option) \<Rightarrow> string \<Rightarrow> world \<Rightarrow> (error + string list) \<times> world" where
  "parseManifest unmarshal path =
     io_bind (or_fail ManifestReadError (os_ReadFile path)) (\<lambda>data.
       case unmarshal data of
         None \<Rightarrow> io_fail ManifestParseError
       | Some manifest \<Rightarrow>
           io_return
             (layer_shas
                (if Config_Digest manifest \<noteq> [] then [blob_name (Config_Digest manifest)] else [])
                (Layers_Digest manifest)))"

definition getFilePaths ::
  "(string \<Rightarrow> Manifest option) \<Rightarrow> ModelName \<Rightarrow> string \<Rightarrow> world \<Rightarrow>
   (error + string list) \<times> world" where
  "getFilePaths unmarshal modelName modelPath =
     (let manifestPath =
            Join [modelPath, ''manifests'', Host modelName, Namespace modelName,
                  Model modelName, Tag modelName]
      in io_bind (parseManifest unmarshal manifestPath) (\<lambda>blobShas.
           io_return
             (Join [''manifests'', Host modelName, Namespace modelName,
                    Model modelName, Tag modelName]
              # map (\<lambda>sha. Join [''blobs'', sha]) blobShas)))"

section \<open>createTarball (cmd/save.go)\<close>

primrec write_entries :: "string \<Rightarrow> string list \<Rightarrow> world \<Rightarrow> (error + unit) \<times> world" where
  "write_entries modelPath [] = io_return ()"
| "write_entries modelPath (relPath # rest) =
     (let absPath = Join [modelPath, relPath] in
      io_bind (or_fail ArchiveWriteError (os_Stat absPath)) (\<lambda>info.
        case FileInfoHeader info of
          None \<Rightarrow> io_fail ArchiveWriteError
        | Some header \<Rightarrow>
            io_bind (or_fail ArchiveWriteError (tw_WriteHeader (header\<lparr>Name := relPath\<rparr>))) (\<lambda>_.
            io_bind (or_fail ArchiveWriteError (os_Open absPath)) (\<lambda>file.
            io_bind (or_fail ArchiveWriteError (io_Copy_tar file)) (\<lambda>_.
            write_entries modelPath rest)))))"

text \<open>The deferred \<open>tw.Close()\<close> runs on every way out of the loop.\<close>

definition createTarball :: "string \<Rightarrow> string list \<Rightarrow> world \<Rightarrow> (error + unit) \<times> world" where
  "createTarball modelPath relativePaths w =
     (case write_entries modelPath relativePaths w of (r, w') \<Rightarrow> (r, tw_Close w'))"

section \<open>The models directory and the ollama account\<close>

definition systemPath :: string where
  "systemPath = ''/usr/share/ollama/.ollama/models''"

text \<open>
  \<open>getOllamaModelsPath\<close> as in the file that also defines \<open>getOllamaUIDGID\<close>, the
  function \<open>extractTarball\<close> calls.
\<close>

definition getOllamaModelsPath :: "world \<Rightarrow> (error + string) \<times> world" where
  "getOllamaModelsPath w =
     (let modelPath = os_Getenv w ''OLLAMA_MODELS'' in
      if modelPath = [] then
        (case os_Stat systemPath w of
           (Some info, w') \<Rightarrow> (Inr systemPath, w')
         | (None, w') \<Rightarrow>
             (case os_UserHomeDir w' of
                None \<Rightarrow> (Inl HomeDirError, w')
              | Some home \<Rightarrow> (Inr (Join [home, ''.ollama'', ''models'']), w')))
      else (Inr modelPath, w))"

text \<open>The variant of cmd/util.go, which does not look at the system-wide path.\<close>

definition getOllamaModelsPath_util :: "world \<Rightarrow> (error + string) \<times> world" where
  "getOllamaModelsPath_util w =
     (let modelPath = os_Getenv w ''OLLAMA_MODELS'' in
      if modelPath = [] then
        (case os_UserHomeDir w of
           None \<Rightarrow> (Inl HomeDirError, w)
         | Some home \<Rightarrow> (Inr (Join [home, ''.ollama'', ''models'']), w))
      else (Inr modelPath, w))"

text \<open>
  \<open>strconv.Atoi\<close>: an optional sign, then decimal digits, and a value that fits in
  64 bits.
\<close>

definition is_digit :: "char \<Rightarrow> bool" where
  "is_digit c = (48 \<le> (of_char c :: nat) \<and> (of_char c :: nat) \<le> 57)"

definition digits_value :: "string \<Rightarrow> int" where
  "digits_value ds = foldl (\<lambda>v c. 10 * v + (int (of_char c) - 48)) 0 ds"

definition Atoi :: "string \<Rightarrow> int option" where
  "Atoi s =
     (let neg = (case s of c # r \<Rightarrow> c = CHR ''-'' | [] \<Rightarrow> False);
          ds = (case s of c # r \<Rightarrow> if c = CHR ''+'' \<or> c = CHR ''-'' then r else s | [] \<Rightarrow> []);
          v = (if neg then - digits_value ds else digits_value ds)
      in if ds = [] \<or> \<not> list_all is_digit ds then None
         else if v < - (2 ^ 63) \<or> 2 ^ 63 - 1 < v then None
         else Some v)"

definition getOllamaUIDGID :: "world \<Rightarrow> error + int \<times> int" where
  "getOllamaUIDGID w =
     (case users w ''ollama'' of
        None \<Rightarrow> Inr (- 1, - 1)
      | Some ollamaUid \<Rightarrow>
          (case groups w ''ollama'' of
             None \<Rightarrow> Inr (- 1, - 1)
           | Some ollamaGid \<Rightarrow>
               (case Atoi ollamaUid of
                  None \<Rightarrow> Inl OwnershipIdError
                | Some uid \<Rightarrow>
                    (case Atoi ollamaGid of
                       None \<Rightarrow> Inl OwnershipIdError
                     | Some gid \<Rightarrow> Inr (uid, gid)))))"

section \<open>extractTarball (cmd/load.go)\<close>

text \<open>
  The decompressors and the tar reader are the libraries'. They are the parameter
  \<open>dec\<close>: for a codec and the bytes of the archive file, \<open>None\<close> when nothing can be
  read (the constructor of the xz or gzip reader fails, or the very first \<open>Next\<close> of a
  plain or bzip2 archive does; in both places the code returns before it touches the
  file system), and otherwise the entries that \<open>Next\<close> yields followed by how the
  stream ends. An entry carries its header, the bytes that can be read from its body,
  and whether the body was read to its end.
\<close>

datatype codec = Xz | Gzip | Bzip2 | PlainTar

datatype tar_item = Entry tar_header string bool

datatype tar_end = EOF | Corrupt

type_synonym decoder = "codec \<Rightarrow> string \<Rightarrow> (tar_item list \<times> tar_end) option"

definition select_codec :: "string \<Rightarrow> codec option" where
  "select_codec fileName =
     (if HasSuffix fileName ''.tar.xz'' then Some Xz
      else if HasSuffix fileName ''.tar.gz'' then Some Gzip
      else if HasSuffix fileName ''.tar.bz2'' \<or> HasSuffix fileName ''.tar.bz'' then Some Bzip2
      else if HasSuffix fileName ''.tar'' then Some PlainTar
      else None)"

text \<open>\<open>if uid != -1 && gid != -1 { os.Chown(path, uid, gid) }\<close>\<close>

definition chown_ollama :: "int \<Rightarrow> int \<Rightarrow> string \<Rightarrow> world \<Rightarrow> (error + unit) \<times> world" where
  "chown_ollama uid gid path =
     (if uid \<noteq> - 1 \<and> gid \<noteq> - 1 then or_fail ExtractWriteError (os_Chown path uid gid)
      else io_return ())"

text \<open>\<open>io.Copy(outFile, tarReader)\<close>\<close>

definition io_Copy_file :: "string \<Rightarrow> string \<Rightarrow> bool \<Rightarrow> world \<Rightarrow> unit option \<times> world" where
  "io_Copy_file outFile body intact w =
     (case file_Write outFile body w of
        (None, w') \<Rightarrow> (None, w')
      | (Some u, w') \<Rightarrow> (if intact then Some () else None, w'))"

primrec extract_entries ::
  "int \<Rightarrow> int \<Rightarrow> string \<Rightarrow> tar_end \<Rightarrow> tar_item list \<Rightarrow> world \<Rightarrow> (error + unit) \<times> world" where
  "extract_entries uid gid destPath e [] =
     (case e of EOF \<Rightarrow> io_return () | Corrupt \<Rightarrow> io_fail ArchiveReadError)"
| "extract_entries uid gid destPath e (item # rest) =
     (case item of Entry header body intact \<Rightarrow>
        (let targetPath = Join [destPath, Name header] in
         if Typeflag header = TypeDir then
           io_bind (or_fail ExtractWriteError (os_MkdirAll targetPath)) (\<lambda>_.
           io_bind (chown_ollama uid gid targetPath) (\<lambda>_.
           extract_entries uid gid destPath e rest))
         else
           (let parentDir = Dir targetPath in
            io_bind (or_fail ExtractWriteError (os_MkdirAll parentDir)) (\<lambda>_.
            io_bind (chown_ollama uid gid parentDir) (\<lambda>_.
            io_bind (or_fail ExtractWriteError (os_OpenFile targetPath (ucast (Mode header)))) (\<lambda>outFile.
            io_bind (or_fail ExtractWriteError (io_Copy_file outFile body intact)) (\<lambda>_.
            io_bind (chown_ollama uid gid targetPath) (\<lambda>_.
            extract_entries uid gid destPath e rest))))))))"

definition read_archive :: "decoder \<Rightarrow> codec \<Rightarrow> string \<times> node \<Rightarrow> (tar_item list \<times> tar_end) option" where
  "read_archive dec c file =
     (case snd file of RegFile m bytes \<Rightarrow> dec c bytes | Directory m \<Rightarrow> None)"

definition extractTarball :: "decoder \<Rightarrow> string \<Rightarrow> string \<Rightarrow> world \<Rightarrow> (error + unit) \<times> world" where
  "extractTarball dec fileName destPath w =
     (case getOllamaUIDGID w of
        Inl err \<Rightarrow> (Inl OwnershipIdError, w)
      | Inr (uid, gid) \<Rightarrow>
          io_bind (or_fail ArchiveReadError (os_Open fileName)) (\<lambda>file.
            case select_codec fileName of
              None \<Rightarrow> io_fail UnsupportedFormat
            | Some c \<Rightarrow>
                (case read_archive dec c file of
                   None \<Rightarrow> io_fail ArchiveReadError
                 | Some (items, e) \<Rightarrow> extract_entries uid gid destPath e items)) w)"

section \<open>The commands\<close>

definition saveCmd_RunE ::
  "(string \<Rightarrow> Manifest option) \<Rightarrow> string \<Rightarrow> world \<Rightarrow> (error + unit) \<times> world" where
  "saveCmd_RunE unmarshal modelNameStr w =
     (if stdout_tty w then (Inl RefusedTerminalOutput, w)
      else (case parseModelName modelNameStr of
              Inl err \<Rightarrow> (Inl err, w)
            | Inr modelName \<Rightarrow>
                io_bind getOllamaModelsPath (\<lambda>modelPath.
                io_bind (getFilePaths unmarshal modelName modelPath) (\<lambda>filePaths.
                createTarball modelPath filePaths)) w))"

definition loadCmd_RunE :: "decoder \<Rightarrow> string \<Rightarrow> world \<Rightarrow> (error + unit) \<times> world" where
  "loadCmd_RunE dec fileName =
     io_bind getOllamaModelsPath (\<lambda>modelPath. extractTarball dec fileName modelPath)"

section \<open>Properties of parseModelName\<close>

subsection \<open>The matcher\<close>

lemma first_some_all_None: "(\<And>x. x \<in> set xs \<Longrightarrow> f x = None) \<Longrightarrow> first_some f xs = None"
  by (induction xs) auto

lemma first_some_head: "(\<And>x. x \<in> set xs \<Longrightarrow> f x = None) \<Longrightarrow> first_some f (x0 # xs) = f x0"
  by (cases "f x0") (auto simp: first_some_all_None)

lemma rev_upt_1: "0 < k \<Longrightarrow> rev [1 ..< Suc k] = k # rev [1 ..< k]"
  by simp

lemma match_needs_literal:
  "Lit c \<in> set its \<Longrightarrow> c \<notin> set s \<Longrightarrow> match_items its s = None"
proof (induction its arbitrary: s)
  case Nil
  then show ?case by simp
next
  case (Cons it r)
  show ?case
  proof (cases it)
    case (Lit d)
    show ?thesis
    proof (cases s)
      case Nil
      then show ?thesis using Lit by simp
    next
      case (Cons x xs)
      then show ?thesis using Lit Cons.prems Cons.IH [of xs] by auto
    qed
  next
    case (Grp nm cl)
    have "Lit c \<in> set r" using Cons.prems Grp by auto
    moreover have "c \<notin> set (drop n s)" for n
      using Cons.prems(2) in_set_dropD by fastforce
    ultimately have "match_items r (drop n s) = None" for n
      using Cons.IH by blast
    then show ?thesis using Grp by (simp add: first_some_all_None)
  qed
qed

lemma length_takeWhile_lt:
  "\<not> (\<forall>x \<in> set s. P x) \<Longrightarrow> length (takeWhile P s) < length s"
  by (induction s) auto

lemma match_group_literal:
  "match_items (Grp nm (NotChar c) # Lit c # r) s =
     (if takeWhile (accepts (NotChar c)) s = [] \<or> dropWhile (accepts (NotChar c)) s = [] then None
      else map_option (Cons (takeWhile (accepts (NotChar c)) s))
             (match_items r (tl (dropWhile (accepts (NotChar c)) s))))"
proof -
  let ?P = "accepts (NotChar c)"
  let ?x = "takeWhile ?P s"
  let ?y = "dropWhile ?P s"
  let ?k = "length ?x"
  let ?f = "\<lambda>n. map_option (Cons (take n s)) (match_items (Lit c # r) (drop n s))"
  define L where "L = match_items (Grp nm (NotChar c) # Lit c # r) s"
  have L: "L = first_some ?f (rev [1 ..< Suc ?k])"
    unfolding L_def by (simp only: match_items.simps item.case)
  have small: "?f n = None" if "n < ?k" for n
  proof -
    have "n < length s" using that length_takeWhile_le [of ?P s] by (meson less_le_trans)
    then have d: "drop n s = s ! n # drop (Suc n) s" by (simp add: Cons_nth_drop_Suc)
    have "?P (s ! n)" using that by (metis nth_mem set_takeWhileD takeWhile_nth)
    then have "s ! n \<noteq> c" by simp
    then show ?thesis using d by simp
  qed
  have "L = (if ?x = [] \<or> ?y = [] then None
             else map_option (Cons ?x) (match_items r (tl ?y)))"
  proof (cases "?k = 0")
    case True
    then have "L = None" using L by simp
    then show ?thesis using True by simp
  next
    case False
    then have k: "0 < ?k" by simp
    have tk: "take ?k s = ?x" by (metis append_eq_conv_conj takeWhile_dropWhile_id)
    have dk: "drop ?k s = ?y" by (metis append_eq_conv_conj takeWhile_dropWhile_id)
    have rest: "\<And>n. n \<in> set (rev [1 ..< ?k]) \<Longrightarrow> ?f n = None" using small by simp
    have "L = first_some ?f (?k # rev [1 ..< ?k])"
      unfolding L by (simp only: rev_upt_1 [OF k])
    also have "\<dots> = ?f ?k" using rest by (rule first_some_head)
    finally have eq: "L = map_option (Cons ?x) (match_items (Lit c # r) ?y)"
      by (simp only: tk dk)
    show ?thesis
    proof (cases ?y)
      case Nil
      show ?thesis unfolding eq Nil by simp
    next
      case (Cons a ys)
      have "\<not> ?P a" using Cons by (metis hd_dropWhile list.sel(1) list.distinct(1))
      then have "a = c" by simp
      then show ?thesis unfolding eq Cons using False by simp
    qed
  qed
  then show ?thesis unfolding L_def .
qed

lemma match_last_group:
  "match_items [Grp nm cl] s =
     (if s \<noteq> [] \<and> (\<forall>x \<in> set s. accepts cl x) then Some [s] else None)"
proof -
  let ?P = "accepts cl"
  let ?k = "length (takeWhile ?P s)"
  let ?f = "\<lambda>n. map_option (Cons (take n s)) (match_items [] (drop n s))"
  have m: "match_items [Grp nm cl] s = first_some ?f (rev [1 ..< Suc ?k])"
    by (simp only: match_items.simps item.case)
  show ?thesis
  proof (cases "s \<noteq> [] \<and> (\<forall>x \<in> set s. ?P x)")
    case True
    then have tw: "takeWhile ?P s = s" by simp
    have k1: "?k = length s" by (simp only: tw)
    have k2: "0 < ?k" unfolding k1 using True by simp
    have "first_some ?f (rev [1 ..< Suc ?k]) = first_some ?f (?k # rev [1 ..< ?k])"
      by (simp only: rev_upt_1 [OF k2])
    also have "\<dots> = Some [s]" unfolding k1 by simp
    finally show ?thesis using m True by simp
  next
    case False
    have "?f n = None" if "n \<in> set (rev [1 ..< Suc ?k])" for n
    proof (cases "s = []")
      case True
      then show ?thesis using that by simp
    next
      case False
      with \<open>\<not> (s \<noteq> [] \<and> (\<forall>x \<in> set s. ?P x))\<close> have "\<not> (\<forall>x \<in> set s. ?P x)" by simp
      then have "?k < length s" by (rule length_takeWhile_lt)
      then have "n < length s" using that by auto
      then show ?thesis by simp
    qed
    then have "first_some ?f (rev [1 ..< Suc ?k]) = None" by (rule first_some_all_None)
    then show ?thesis using m False by simp
  qed
qed

lemma match_group_literal_split:
  assumes "x \<noteq> []" "c \<notin> set x"
  shows "match_items (Grp nm (NotChar c) # Lit c # r) (x @ c # rest) =
           map_option (Cons x) (match_items r rest)"
proof -
  have tw: "takeWhile (accepts (NotChar c)) (x @ c # rest) = x"
    using assms(2) by (induction x) auto
  have dw: "dropWhile (accepts (NotChar c)) (x @ c # rest) = c # rest"
    using assms(2) by (induction x) auto
  show ?thesis unfolding match_group_literal tw dw using assms(1) by simp
qed

lemmas pattern_defs = pattern1_def pattern2_def pattern3_def pattern4_def pattern5_def

lemmas assign_defs = SubexpNames_def set_group_def default_name_def

lemma try_patterns_skip:
  "FindStringSubmatch re s = None \<Longrightarrow> try_patterns (re # res) s = try_patterns res s"
  by simp

lemma try_patterns_hit:
  "FindStringSubmatch re s = Some ms \<Longrightarrow>
   try_patterns (re # res) s = Inr (fold set_group (zip (SubexpNames re) ms) default_name)"
  by simp

lemma no_colon_pattern1: "CHR '':'' \<notin> set s \<Longrightarrow> FindStringSubmatch pattern1 s = None"
  unfolding FindStringSubmatch_def pattern1_def
  by (subst match_needs_literal [of "CHR '':''"]) simp_all

lemma no_colon_pattern2: "CHR '':'' \<notin> set s \<Longrightarrow> FindStringSubmatch pattern2 s = None"
  unfolding FindStringSubmatch_def pattern2_def
  by (subst match_needs_literal [of "CHR '':''"]) simp_all

lemma no_colon_pattern4: "CHR '':'' \<notin> set s \<Longrightarrow> FindStringSubmatch pattern4 s = None"
  unfolding FindStringSubmatch_def pattern4_def
  by (subst match_needs_literal [of "CHR '':''"]) simp_all

lemma shape1_parse:
  assumes "h \<noteq> []" "CHR ''/'' \<notin> set h" "n \<noteq> []" "CHR ''/'' \<notin> set n"
    "m \<noteq> []" "CHR '':'' \<notin> set m" "t \<noteq> []" "CHR 0x0A \<notin> set t"
  shows "parseModelName (h @ ''/'' @ n @ ''/'' @ m @ '':'' @ t) =
           Inr \<lparr>Host = h, Namespace = n, Model = m, Tag = t\<rparr>"
proof -
  have "match_items pattern1 (h @ ''/'' @ n @ ''/'' @ m @ '':'' @ t) = Some [h, n, m, t]"
    unfolding pattern1_def using assms
    by (simp add: match_group_literal_split match_last_group del: match_items.simps)
  then have hit: "FindStringSubmatch pattern1 (h @ ''/'' @ n @ ''/'' @ m @ '':'' @ t) =
      Some [h @ ''/'' @ n @ ''/'' @ m @ '':'' @ t, h, n, m, t]"
    by (simp add: FindStringSubmatch_def)
  show ?thesis
    unfolding parseModelName_def patterns_def
    by (simp only: try_patterns_hit [OF hit]) (simp add: pattern1_def assign_defs)
qed

lemma shape2_parse:
  assumes "n \<noteq> []" "CHR ''/'' \<notin> set n"
    "m \<noteq> []" "CHR '':'' \<notin> set m" "t \<noteq> []" "CHR 0x0A \<notin> set t"
    "FindStringSubmatch pattern1 (n @ ''/'' @ m @ '':'' @ t) = None"
  shows "parseModelName (n @ ''/'' @ m @ '':'' @ t) =
           Inr \<lparr>Host = ''registry.ollama.ai'', Namespace = n, Model = m, Tag = t\<rparr>"
proof -
  let ?s = "n @ ''/'' @ m @ '':'' @ t"
  have "match_items pattern2 ?s = Some [n, m, t]"
    unfolding pattern2_def using assms(1-6)
    by (simp add: match_group_literal_split match_last_group del: match_items.simps)
  then have hit: "FindStringSubmatch pattern2 ?s = Some [?s, n, m, t]"
    by (simp add: FindStringSubmatch_def)
  show ?thesis
    unfolding parseModelName_def patterns_def
    by (simp only: try_patterns_skip [OF assms(7)] try_patterns_hit [OF hit])
       (simp add: pattern2_def assign_defs)
qed

lemma shape3_parse:
  assumes "n \<noteq> []" "CHR ''/'' \<notin> set n" "m \<noteq> []" "CHR '':'' \<notin> set m"
  shows "parseModelName (n @ ''/'' @ m) =
           Inr \<lparr>Host = ''registry.ollama.ai'', Namespace = n, Model = m, Tag = ''latest''\<rparr>"
proof -
  let ?s = "n @ ''/'' @ m"
  have "match_items pattern1 ?s = None"
    unfolding pattern1_def using assms
    by (simp add: match_group_literal_split match_needs_literal [of "CHR '':''"]
          del: match_items.simps)
  then have p1: "FindStringSubmatch pattern1 ?s = None" by (simp add: FindStringSubmatch_def)
  have "match_items pattern2 ?s = None"
    unfolding pattern2_def using assms
    by (simp add: match_group_literal_split match_needs_literal [of "CHR '':''"]
          del: match_items.simps)
  then have p2: "FindStringSubmatch pattern2 ?s = None" by (simp add: FindStringSubmatch_def)
  have "match_items pattern3 ?s = Some [n, m]"
    unfolding pattern3_def using assms
    by (simp add: match_group_literal_split match_last_group del: match_items.simps)
  then have hit: "FindStringSubmatch pattern3 ?s = Some [?s, n, m]"
    by (simp add: FindStringSubmatch_def)
  show ?thesis
    unfolding parseModelName_def patterns_def
    by (simp only: try_patterns_skip [OF p1] try_patterns_skip [OF p2] try_patterns_hit [OF hit])
       (simp add: pattern3_def assign_defs)
qed

lemma shape4_parse:
  assumes "m \<noteq> []" "CHR '':'' \<notin> set m" "t \<noteq> []" "CHR 0x0A \<notin> set t"
    "FindStringSubmatch pattern1 (m @ '':'' @ t) = None"
    "FindStringSubmatch pattern2 (m @ '':'' @ t) = None"
    "FindStringSubmatch pattern3 (m @ '':'' @ t) = None"
  shows "parseModelName (m @ '':'' @ t) =
           Inr \<lparr>Host = ''registry.ollama.ai'', Namespace = ''library'', Model = m, Tag = t\<rparr>"
proof -
  let ?s = "m @ '':'' @ t"
  have "match_items pattern4 ?s = Some [m, t]"
    unfolding pattern4_def using assms(1-4)
    by (simp add: match_group_literal_split match_last_group del: match_items.simps)
  then have hit: "FindStringSubmatch pattern4 ?s = Some [?s, m, t]"
    by (simp add: FindStringSubmatch_def)
  show ?thesis
    unfolding parseModelName_def patterns_def
    by (simp only: try_patterns_skip [OF assms(5)] try_patterns_skip [OF assms(6)]
          try_patterns_skip [OF assms(7)] try_patterns_hit [OF hit])
       (simp add: pattern4_def assign_defs)
qed

lemma shape5_parse:
  assumes "m \<noteq> []" "CHR '':'' \<notin> set m" "FindStringSubmatch pattern3 m = None"
  shows "parseModelName m =
           Inr \<lparr>Host = ''registry.ollama.ai'', Namespace = ''library'', Model = m,
                Tag = ''latest''\<rparr>"
proof -
  have "match_items pattern5 m = Some [m]"
    unfolding pattern5_def using assms(1,2) by (simp add: match_last_group del: match_items.simps)
  then have hit: "FindStringSubmatch pattern5 m = Some [m, m]"
    by (simp add: FindStringSubmatch_def)
  show ?thesis
    unfolding parseModelName_def patterns_def
    by (simp only: try_patterns_skip [OF no_colon_pattern1 [OF assms(2)]]
          try_patterns_skip [OF no_colon_pattern2 [OF assms(2)]]
          try_patterns_skip [OF assms(3)]
          try_patterns_skip [OF no_colon_pattern4 [OF assms(2)]]
          try_patterns_hit [OF hit])
       (simp add: pattern5_def assign_defs)
qed

lemma first_some_SomeD: "first_some f xs = Some y \<Longrightarrow> \<exists>x \<in> set xs. f x = Some y"
  by (induction xs) (auto split: option.splits)

lemma match_items_captures:
  "match_items its s = Some caps \<Longrightarrow>
     length caps = length (group_names its) \<and> (\<forall>c \<in> set caps. c \<noteq> [])"
proof (induction its arbitrary: s caps)
  case Nil
  then show ?case by (simp split: if_splits)
next
  case (Cons it r)
  show ?case
  proof (cases it)
    case (Lit d)
    obtain xs where xs: "s = d # xs" "match_items r xs = Some caps"
      using Cons.prems Lit by (cases s) (simp_all split: if_splits)
    show ?thesis using Cons.IH [OF xs(2)] Lit by simp
  next
    case (Grp nm cl)
    let ?f = "\<lambda>n. map_option (Cons (take n s)) (match_items r (drop n s))"
    let ?k = "length (takeWhile (accepts cl) s)"
    have "first_some ?f (rev [1 ..< Suc ?k]) = Some caps"
      using Cons.prems Grp by (simp only: match_items.simps item.case)
    from first_some_SomeD [OF this]
    obtain n where n: "n \<in> set (rev [1 ..< Suc ?k])" "?f n = Some caps"
      by blast
    from n(2) obtain rest where rest: "match_items r (drop n s) = Some rest" "caps = take n s # rest"
      by (cases "match_items r (drop n s)") auto
    have "n \<in> {1 ..< Suc ?k}" using n(1) by (simp only: set_rev set_upt)
    then have "1 \<le> n" "n \<le> ?k" by auto
    moreover have "?k \<le> length s" by (rule length_takeWhile_le)
    ultimately have "take n s \<noteq> []" by auto
    then show ?thesis using Cons.IH [OF rest(1)] rest(2) Grp by simp
  qed
qed

lemma length4E: "length xs = 4 \<Longrightarrow> \<exists>a b c d. xs = [a, b, c, d]"
  by (auto simp: length_Suc_conv numeral_eq_Suc)

lemma length3E: "length xs = 3 \<Longrightarrow> \<exists>a b c. xs = [a, b, c]"
  by (auto simp: length_Suc_conv numeral_eq_Suc)

lemma length2E: "length xs = 2 \<Longrightarrow> \<exists>a b. xs = [a, b]"
  by (auto simp: length_Suc_conv numeral_eq_Suc)

lemma length1E: "length xs = 1 \<Longrightarrow> \<exists>a. xs = [a]"
  by (auto simp: length_Suc_conv)

lemma hit_model_nonempty:
  assumes "re \<in> set patterns" "FindStringSubmatch re s = Some ms"
  shows "Model (fold set_group (zip (SubexpNames re) ms) default_name) \<noteq> []"
proof -
  obtain caps where caps: "match_items re s = Some caps" "ms = s # caps"
    using assms(2) by (auto simp: FindStringSubmatch_def)
  note c = match_items_captures [OF caps(1)]
  consider "re = pattern1" | "re = pattern2" | "re = pattern3" | "re = pattern4" | "re = pattern5"
    using assms(1) by (auto simp: patterns_def)
  then show ?thesis
  proof cases
    case 1
    then have "length caps = 4" using c by (simp add: pattern1_def)
    then obtain a b m d where "caps = [a, b, m, d]" using length4E by blast
    then show ?thesis using c caps(2) 1 by (simp add: pattern1_def assign_defs)
  next
    case 2
    then have "length caps = 3" using c by (simp add: pattern2_def)
    then obtain a m d where "caps = [a, m, d]" using length3E by blast
    then show ?thesis using c caps(2) 2 by (simp add: pattern2_def assign_defs)
  next
    case 3
    then have "length caps = 2" using c by (simp add: pattern3_def)
    then obtain a m where "caps = [a, m]" using length2E by blast
    then show ?thesis using c caps(2) 3 by (simp add: pattern3_def assign_defs)
  next
    case 4
    then have "length caps = 2" using c by (simp add: pattern4_def)
    then obtain m d where "caps = [m, d]" using length2E by blast
    then show ?thesis using c caps(2) 4 by (simp add: pattern4_def assign_defs)
  next
    case 5
    then have "length caps = 1" using c by (simp add: pattern5_def)
    then obtain m where "caps = [m]" using length1E by blast
    then show ?thesis using c caps(2) 5 by (simp add: pattern5_def assign_defs)
  qed
qed

lemma try_patterns_model_nonempty:
  "set res \<subseteq> set patterns \<Longrightarrow> try_patterns res s = Inr r \<Longrightarrow> Model r \<noteq> []"
proof (induction res)
  case Nil
  then show ?case by simp
next
  case (Cons re res)
  show ?case
  proof (cases "FindStringSubmatch re s")
    case None
    then show ?thesis using Cons by simp
  next
    case (Some ms)
    have "re \<in> set patterns" using Cons.prems(1) by simp
    from hit_model_nonempty [OF this Some] show ?thesis using Cons.prems(2) Some by auto
  qed
qed

lemma model_nonempty: "parseModelName s = Inr r \<Longrightarrow> Model r \<noteq> []"
  unfolding parseModelName_def by (rule try_patterns_model_nonempty [of patterns]) simp_all

lemma no_slash_pattern1: "CHR ''/'' \<notin> set s \<Longrightarrow> FindStringSubmatch pattern1 s = None"
  unfolding FindStringSubmatch_def pattern1_def
  by (subst match_needs_literal [of "CHR ''/''"]) simp_all

lemma no_slash_pattern2: "CHR ''/'' \<notin> set s \<Longrightarrow> FindStringSubmatch pattern2 s = None"
  unfolding FindStringSubmatch_def pattern2_def
  by (subst match_needs_literal [of "CHR ''/''"]) simp_all

lemma no_slash_pattern3: "CHR ''/'' \<notin> set s \<Longrightarrow> FindStringSubmatch pattern3 s = None"
  unfolding FindStringSubmatch_def pattern3_def
  by (subst match_needs_literal [of "CHR ''/''"]) simp_all

lemma leading_colon_pattern4: "FindStringSubmatch pattern4 (CHR '':'' # t) = None"
  unfolding FindStringSubmatch_def pattern4_def match_group_literal by simp

lemma leading_colon_pattern5: "FindStringSubmatch pattern5 (CHR '':'' # t) = None"
  unfolding FindStringSubmatch_def pattern5_def match_last_group by simp

lemma empty_model_fails:
  assumes "CHR ''/'' \<notin> set t"
  shows "parseModelName ('':'' @ t) = Inl InvalidReference"
proof -
  have s: "CHR ''/'' \<notin> set (CHR '':'' # t)" using assms by simp
  show ?thesis
    unfolding parseModelName_def patterns_def
    by (simp only: append_Cons append_Nil try_patterns_skip [OF no_slash_pattern1 [OF s]]
          try_patterns_skip [OF no_slash_pattern2 [OF s]]
          try_patterns_skip [OF no_slash_pattern3 [OF s]]
          try_patterns_skip [OF leading_colon_pattern4]
          try_patterns_skip [OF leading_colon_pattern5] try_patterns.simps(1))
qed

lemma set_tl_dropWhile: "x \<in> set (tl (dropWhile P s)) \<Longrightarrow> x \<in> set s"
  by (induction s) (auto split: if_splits)

lemma pattern3_no_colon:
  assumes "CHR '':'' \<notin> set s"
  shows "FindStringSubmatch pattern3 s =
    (if takeWhile (accepts (NotChar CHR ''/'')) s \<noteq> [] \<and> tl (dropWhile (accepts (NotChar CHR ''/'')) s) \<noteq> []
     then Some [s, takeWhile (accepts (NotChar CHR ''/'')) s, tl (dropWhile (accepts (NotChar CHR ''/'')) s)]
     else None)"
proof -
  define x where "x = takeWhile (accepts (NotChar CHR ''/'')) s"
  define y where "y = dropWhile (accepts (NotChar CHR ''/'')) s"
  have ok: "\<forall>c \<in> set (tl y). accepts (NotChar CHR '':'') c"
  proof
    fix c assume "c \<in> set (tl y)"
    then have "c \<in> set s" unfolding y_def by (rule set_tl_dropWhile)
    then show "accepts (NotChar CHR '':'') c" using assms by auto
  qed
  have m: "match_items pattern3 s =
      (if x = [] \<or> y = [] then None
       else map_option (Cons x) (if tl y \<noteq> [] \<and> (\<forall>c \<in> set (tl y). accepts (NotChar CHR '':'') c) then Some [tl y] else None))"
    unfolding pattern3_def match_group_literal match_last_group x_def y_def ..
  have "map_option (Cons s) (match_items pattern3 s) =
      (if x \<noteq> [] \<and> tl y \<noteq> [] then Some [s, x, tl y] else None)"
  proof (cases "x \<noteq> [] \<and> tl y \<noteq> []")
    case True
    then have "y \<noteq> []" by auto
    then show ?thesis unfolding m using True ok by simp
  next
    case False
    then consider "x = []" | "tl y = []" by blast
    then show ?thesis
    proof cases
      case 1
      then show ?thesis unfolding m by simp
    next
      case 2
      then show ?thesis unfolding m by simp
    qed
  qed
  then show ?thesis unfolding FindStringSubmatch_def x_def y_def .
qed

subsection \<open>The claims about parseModelName\<close>

lemma accepts_NotChar: "accepts (NotChar c) = (\<lambda>x. x \<noteq> c)"
  by (rule ext) simp

text \<open>
  Claim C1. An input of one of the five shapes, its parts drawn from the character
  classes of the patterns (host and namespace non-empty without \<open>/\<close>, model non-empty
  without \<open>:\<close>, tag non-empty without a newline), parses to its parts, with the
  defaults \<open>registry.ollama.ai\<close>, \<open>library\<close> and \<open>latest\<close> for the parts the shape
  does not have, whenever no earlier pattern matches the input (the first match wins).
  For the shapes \<open>host/namespace/model:tag\<close> and \<open>namespace/model\<close> no earlier pattern
  can match. The three examples of the specification are the last three conjuncts.
\<close>

theorem parseModelName_shapes:
  assumes "h \<noteq> []" "CHR ''/'' \<notin> set h" "n \<noteq> []" "CHR ''/'' \<notin> set n"
    and "m \<noteq> []" "CHR '':'' \<notin> set m" "t \<noteq> []" "CHR 0x0A \<notin> set t"
  shows "parseModelName (h @ ''/'' @ n @ ''/'' @ m @ '':'' @ t) =
           Inr \<lparr>Host = h, Namespace = n, Model = m, Tag = t\<rparr>
       \<and> (FindStringSubmatch pattern1 (n @ ''/'' @ m @ '':'' @ t) = None \<longrightarrow>
            parseModelName (n @ ''/'' @ m @ '':'' @ t) =
              Inr \<lparr>Host = ''registry.ollama.ai'', Namespace = n, Model = m, Tag = t\<rparr>)
       \<and> parseModelName (n @ ''/'' @ m) =
            Inr \<lparr>Host = ''registry.ollama.ai'', Namespace = n, Model = m, Tag = ''latest''\<rparr>
       \<and> (FindStringSubmatch pattern1 (m @ '':'' @ t) = None \<and>
          FindStringSubmatch pattern2 (m @ '':'' @ t) = None \<and>
          FindStringSubmatch pattern3 (m @ '':'' @ t) = None \<longrightarrow>
            parseModelName (m @ '':'' @ t) =
              Inr \<lparr>Host = ''registry.ollama.ai'', Namespace = ''library'', Model = m, Tag = t\<rparr>)
       \<and> (FindStringSubmatch pattern3 m = None \<longrightarrow>
            parseModelName m =
              Inr \<lparr>Host = ''registry.ollama.ai'', Namespace = ''library'', Model = m,
                   Tag = ''latest''\<rparr>)
       \<and> parseModelName ''llama2'' =
            Inr \<lparr>Host = ''registry.ollama.ai'', Namespace = ''library'', Model = ''llama2'',
                 Tag = ''latest''\<rparr>
       \<and> parseModelName ''foo/bar:v1'' =
            Inr \<lparr>Host = ''registry.ollama.ai'', Namespace = ''foo'', Model = ''bar'',
                 Tag = ''v1''\<rparr>
       \<and> parseModelName ''h.example.com/ns/model:tag'' =
            Inr \<lparr>Host = ''h.example.com'', Namespace = ''ns'', Model = ''model'', Tag = ''tag''\<rparr>"
proof (intro conjI impI)
  show "parseModelName (h @ ''/'' @ n @ ''/'' @ m @ '':'' @ t) =
          Inr \<lparr>Host = h, Namespace = n, Model = m, Tag = t\<rparr>"
    using assms by (rule shape1_parse)
  show "parseModelName (n @ ''/'' @ m) =
          Inr \<lparr>Host = ''registry.ollama.ai'', Namespace = n, Model = m, Tag = ''latest''\<rparr>"
    using assms(3-6) by (rule shape3_parse)
  show "parseModelName ''llama2'' =
          Inr \<lparr>Host = ''registry.ollama.ai'', Namespace = ''library'', Model = ''llama2'',
               Tag = ''latest''\<rparr>"
    by code_simp
  show "parseModelName ''foo/bar:v1'' =
          Inr \<lparr>Host = ''registry.ollama.ai'', Namespace = ''foo'', Model = ''bar'', Tag = ''v1''\<rparr>"
    by code_simp
  show "parseModelName ''h.example.com/ns/model:tag'' =
          Inr \<lparr>Host = ''h.example.com'', Namespace = ''ns'', Model = ''model'', Tag = ''tag''\<rparr>"
    by code_simp
next
  assume "FindStringSubmatch pattern1 (n @ ''/'' @ m @ '':'' @ t) = None"
  with assms(3-8) show "parseModelName (n @ ''/'' @ m @ '':'' @ t) =
      Inr \<lparr>Host = ''registry.ollama.ai'', Namespace = n, Model = m, Tag = t\<rparr>"
    by (rule shape2_parse)
next
  assume "FindStringSubmatch pattern1 (m @ '':'' @ t) = None \<and>
          FindStringSubmatch pattern2 (m @ '':'' @ t) = None \<and>
          FindStringSubmatch pattern3 (m @ '':'' @ t) = None"
  then show "parseModelName (m @ '':'' @ t) =
      Inr \<lparr>Host = ''registry.ollama.ai'', Namespace = ''library'', Model = m, Tag = t\<rparr>"
    using assms(5-8) shape4_parse by blast
next
  assume "FindStringSubmatch pattern3 m = None"
  with assms(5,6) show "parseModelName m =
      Inr \<lparr>Host = ''registry.ollama.ai'', Namespace = ''library'', Model = m, Tag = ''latest''\<rparr>"
    by (rule shape5_parse)
qed

text \<open>
  The theorem at \<open>h.example.com\<close>, \<open>ns\<close>, \<open>model\<close>, \<open>tag\<close>: every premise holds
  there, and so does every "no earlier pattern matches".
\<close>

theorem parseModelName_shapes_witness:
  "parseModelName (''h.example.com'' @ ''/'' @ ''ns'' @ ''/'' @ ''model'' @ '':'' @ ''tag'') =
     Inr \<lparr>Host = ''h.example.com'', Namespace = ''ns'', Model = ''model'', Tag = ''tag''\<rparr>
   \<and> FindStringSubmatch pattern1 (''ns'' @ ''/'' @ ''model'' @ '':'' @ ''tag'') = None
   \<and> parseModelName (''ns'' @ ''/'' @ ''model'' @ '':'' @ ''tag'') =
       Inr \<lparr>Host = ''registry.ollama.ai'', Namespace = ''ns'', Model = ''model'', Tag = ''tag''\<rparr>
   \<and> parseModelName (''ns'' @ ''/'' @ ''model'') =
       Inr \<lparr>Host = ''registry.ollama.ai'', Namespace = ''ns'', Model = ''model'',
            Tag = ''latest''\<rparr>
   \<and> FindStringSubmatch pattern1 (''model'' @ '':'' @ ''tag'') = None
   \<and> FindStringSubmatch pattern2 (''model'' @ '':'' @ ''tag'') = None
   \<and> FindStringSubmatch pattern3 (''model'' @ '':'' @ ''tag'') = None
   \<and> parseModelName (''model'' @ '':'' @ ''tag'') =
       Inr \<lparr>Host = ''registry.ollama.ai'', Namespace = ''library'', Model = ''model'',
            Tag = ''tag''\<rparr>
   \<and> FindStringSubmatch pattern3 ''model'' = None
   \<and> parseModelName ''model'' =
       Inr \<lparr>Host = ''registry.ollama.ai'', Namespace = ''library'', Model = ''model'',
            Tag = ''latest''\<rparr>"
proof -
  have a: "FindStringSubmatch pattern1 (''ns'' @ ''/'' @ ''model'' @ '':'' @ ''tag'') = None"
    by code_simp
  have b: "FindStringSubmatch pattern1 (''model'' @ '':'' @ ''tag'') = None"
    "FindStringSubmatch pattern2 (''model'' @ '':'' @ ''tag'') = None"
    "FindStringSubmatch pattern3 (''model'' @ '':'' @ ''tag'') = None"
    by code_simp+
  have c: "FindStringSubmatch pattern3 ''model'' = None"
    by code_simp
  have h: "''h.example.com'' \<noteq> []" "CHR ''/'' \<notin> set ''h.example.com''"
    "''ns'' \<noteq> []" "CHR ''/'' \<notin> set ''ns''"
    "''model'' \<noteq> []" "CHR '':'' \<notin> set ''model''"
    "''tag'' \<noteq> []" "CHR 0x0A \<notin> set ''tag''"
    by simp_all
  show ?thesis
    using parseModelName_shapes [OF h] a b c by blast
qed

text \<open>
  Claim C10. Every non-empty input without \<open>:\<close> parses. If its first \<open>/\<close> has text
  on both sides, the text before it is the namespace and all the rest, further
  slashes included, is the model; otherwise the whole input is the model. So
  \<open>a/b/c\<close> has namespace \<open>a\<close> and model \<open>b/c\<close>.
\<close>

theorem model_with_slashes:
  assumes "s \<noteq> []" "CHR '':'' \<notin> set s"
  shows "parseModelName s =
           Inr (if takeWhile (\<lambda>c. c \<noteq> CHR ''/'') s \<noteq> [] \<and>
                   tl (dropWhile (\<lambda>c. c \<noteq> CHR ''/'') s) \<noteq> []
                then \<lparr>Host = ''registry.ollama.ai'',
                      Namespace = takeWhile (\<lambda>c. c \<noteq> CHR ''/'') s,
                      Model = tl (dropWhile (\<lambda>c. c \<noteq> CHR ''/'') s), Tag = ''latest''\<rparr>
                else \<lparr>Host = ''registry.ollama.ai'', Namespace = ''library'', Model = s,
                      Tag = ''latest''\<rparr>)
       \<and> parseModelName ''a/b/c'' =
           Inr \<lparr>Host = ''registry.ollama.ai'', Namespace = ''a'', Model = ''b/c'',
                Tag = ''latest''\<rparr>"
proof
  define x where "x = takeWhile (\<lambda>c. c \<noteq> CHR ''/'') s"
  define y where "y = dropWhile (\<lambda>c. c \<noteq> CHR ''/'') s"
  have xy: "s = x @ y" unfolding x_def y_def by simp
  have p3: "FindStringSubmatch pattern3 s = (if x \<noteq> [] \<and> tl y \<noteq> [] then Some [s, x, tl y] else None)"
    using pattern3_no_colon [OF assms(2)] unfolding x_def y_def accepts_NotChar .
  have "parseModelName s =
      Inr (if x \<noteq> [] \<and> tl y \<noteq> []
           then \<lparr>Host = ''registry.ollama.ai'', Namespace = x, Model = tl y, Tag = ''latest''\<rparr>
           else \<lparr>Host = ''registry.ollama.ai'', Namespace = ''library'', Model = s,
                 Tag = ''latest''\<rparr>)"
  proof (cases "x \<noteq> [] \<and> tl y \<noteq> []")
    case True
    then have "y \<noteq> []" by auto
    then have "hd y = CHR ''/''" unfolding y_def using hd_dropWhile [of "\<lambda>c. c \<noteq> CHR ''/''" s] by blast
    then have s: "s = x @ ''/'' @ tl y" using xy \<open>y \<noteq> []\<close> by (cases y) simp_all
    have nx: "CHR ''/'' \<notin> set x" unfolding x_def by (auto dest: set_takeWhileD)
    have ny: "CHR '':'' \<notin> set (tl y)" using assms(2) s by (metis Un_iff set_append)
    have "parseModelName (x @ ''/'' @ tl y) =
        Inr \<lparr>Host = ''registry.ollama.ai'', Namespace = x, Model = tl y, Tag = ''latest''\<rparr>"
      using True nx ny by (intro shape3_parse) simp_all
    then show ?thesis using True s by simp
  next
    case False
    then have "FindStringSubmatch pattern3 s = None" using p3 by simp
    from shape5_parse [OF assms this] show ?thesis by (simp only: if_not_P [OF False])
  qed
  then show "parseModelName s =
           Inr (if takeWhile (\<lambda>c. c \<noteq> CHR ''/'') s \<noteq> [] \<and>
                   tl (dropWhile (\<lambda>c. c \<noteq> CHR ''/'') s) \<noteq> []
                then \<lparr>Host = ''registry.ollama.ai'',
                      Namespace = takeWhile (\<lambda>c. c \<noteq> CHR ''/'') s,
                      Model = tl (dropWhile (\<lambda>c. c \<noteq> CHR ''/'') s), Tag = ''latest''\<rparr>
                else \<lparr>Host = ''registry.ollama.ai'', Namespace = ''library'', Model = s,
                      Tag = ''latest''\<rparr>)"
    unfolding x_def y_def .
  show "parseModelName ''a/b/c'' =
           Inr \<lparr>Host = ''registry.ollama.ai'', Namespace = ''a'', Model = ''b/c'',
                Tag = ''latest''\<rparr>"
    by code_simp
qed

text \<open>
  The theorem at \<open>x/y/z/w\<close>.
\<close>

theorem model_with_slashes_witness:
  "''x/y/z/w'' \<noteq> [] \<and> CHR '':'' \<notin> set ''x/y/z/w'' \<and>
   parseModelName ''x/y/z/w'' =
     Inr \<lparr>Host = ''registry.ollama.ai'', Namespace = ''x'', Model = ''y/z/w'', Tag = ''latest''\<rparr>"
proof -
  have h: "''x/y/z/w'' \<noteq> []" "CHR '':'' \<notin> set ''x/y/z/w''" by simp_all
  show ?thesis using model_with_slashes [OF h] by simp
qed

text \<open>
  Claim C8 as stated fails: an empty model part does not always make parsing fail.
  \<open>ns/\<close> is the shape \<open>namespace/model\<close> with an empty model, and it is accepted by
  the last pattern with model \<open>ns/\<close>; \<open>h/n/:t\<close> is the first shape with an empty
  model, and it is accepted by the second pattern with model \<open>n/\<close>.
\<close>

theorem empty_model_accepted:
  "parseModelName (''ns'' @ ''/'' @ []) =
     Inr \<lparr>Host = ''registry.ollama.ai'', Namespace = ''library'', Model = ''ns/'',
          Tag = ''latest''\<rparr>
   \<and> parseModelName (''h'' @ ''/'' @ ''n'' @ ''/'' @ [] @ '':'' @ ''t'') =
     Inr \<lparr>Host = ''registry.ollama.ai'', Namespace = ''h'', Model = ''n/'', Tag = ''t''\<rparr>"
  by code_simp

text \<open>
  Claim C8, amended. The model of every reference that parseModelName returns is
  non-empty; the empty input fails with InvalidReference, and so does every input
  that starts with \<open>:\<close> (an empty model before the tag) and contains no \<open>/\<close>.
\<close>

theorem model_never_empty:
  "(parseModelName s = Inr r \<longrightarrow> Model r \<noteq> [])
   \<and> parseModelName [] = Inl InvalidReference
   \<and> (CHR ''/'' \<notin> set t \<longrightarrow> parseModelName ('':'' @ t) = Inl InvalidReference)"
proof (intro conjI impI)
  show "parseModelName s = Inr r \<Longrightarrow> Model r \<noteq> []" by (rule model_nonempty)
  show "parseModelName [] = Inl InvalidReference" by code_simp
  show "CHR ''/'' \<notin> set t \<Longrightarrow> parseModelName ('':'' @ t) = Inl InvalidReference"
    by (rule empty_model_fails)
qed

text \<open>
  The theorem at the input \<open>llama2\<close> and at the tag \<open>tag\<close>.
\<close>

theorem model_never_empty_witness:
  "parseModelName ''llama2'' =
     Inr \<lparr>Host = ''registry.ollama.ai'', Namespace = ''library'', Model = ''llama2'',
          Tag = ''latest''\<rparr>
   \<and> Model \<lparr>Host = ''registry.ollama.ai'', Namespace = ''library'', Model = ''llama2'',
          Tag = ''latest''\<rparr> \<noteq> []
   \<and> CHR ''/'' \<notin> set ''tag'' \<and> parseModelName ('':'' @ ''tag'') = Inl InvalidReference"
proof -
  have p: "parseModelName ''llama2'' =
     Inr \<lparr>Host = ''registry.ollama.ai'', Namespace = ''library'', Model = ''llama2'',
          Tag = ''latest''\<rparr>"
    by code_simp
  have t: "CHR ''/'' \<notin> set ''tag''" by simp
  show ?thesis
    using model_never_empty [of "''llama2''" _ "''tag''"] p t by simp
qed

end
